theory Spec2Isabelle
  imports Complex_Main
begin

section \<open>Python values\<close>

text \<open>
  A Python float is a finite number, an infinity or NaN.  A finite float is represented by
  the real number it denotes; the two zeros are not told apart (Python compares them equal,
  and both raise as a divisor).  IEEE rounding is not computed here: every arithmetic
  function takes the rounding \<open>rnd\<close> of an exact result to a float as a parameter, so that
  what is proved holds for whatever rounding the platform performs.
\<close>

datatype pyfloat = Finite real | PosInf | NegInf | NaN

text \<open>The exceptions that the modelled code can raise; \<open>OtherError\<close> is any exception
  coming out of an external collaborator (the classifier, the backtesting engine, the
  file system), identified by a label.\<close>

datatype py_error =
    TypeError
  | ZeroDivisionError
  | OverflowError
  | ValueError
  | UnboundLocalError
  | OtherError string

text \<open>The values found in analyzer outputs: \<open>None\<close>, booleans, integers, floats, strings and
  dictionaries with string keys (in insertion order); \<open>PObject\<close> stands for any other object
  (for instance a bound method), identified by a label.\<close>

datatype pyval =
    PNone
  | PBool bool
  | PInt int
  | PFloat pyfloat
  | PStr string
  | PDict "(string \<times> pyval) list"
  | PObject string

subsection \<open>Float arithmetic\<close>

fun fl_less :: "pyfloat \<Rightarrow> pyfloat \<Rightarrow> bool" where
  "fl_less (Finite x) (Finite y) = (x < y)"
| "fl_less (Finite x) PosInf = True"
| "fl_less NegInf (Finite y) = True"
| "fl_less NegInf PosInf = True"
| "fl_less _ _ = False"

text \<open>\<open>a > b\<close> on floats; every comparison with NaN is false.\<close>

definition fl_gt :: "pyfloat \<Rightarrow> pyfloat \<Rightarrow> bool" where
  "fl_gt a b = fl_less b a"

text \<open>\<open>a <= b\<close> on floats.\<close>

definition fl_le :: "pyfloat \<Rightarrow> pyfloat \<Rightarrow> bool" where
  "fl_le a b = (fl_less a b \<or> (a = b \<and> a \<noteq> NaN))"

text \<open>\<open>a / b\<close> for a divisor that is not zero (Python raises before dividing by zero).\<close>

fun fl_div :: "(real \<Rightarrow> pyfloat) \<Rightarrow> pyfloat \<Rightarrow> pyfloat \<Rightarrow> pyfloat" where
  "fl_div rnd (Finite x) (Finite y) = rnd (x / y)"
| "fl_div rnd (Finite x) PosInf = Finite 0"
| "fl_div rnd (Finite x) NegInf = Finite 0"
| "fl_div rnd PosInf (Finite y) = (if y < 0 then NegInf else PosInf)"
| "fl_div rnd NegInf (Finite y) = (if y < 0 then PosInf else NegInf)"
| "fl_div rnd _ _ = NaN"

fun fl_sub :: "(real \<Rightarrow> pyfloat) \<Rightarrow> pyfloat \<Rightarrow> pyfloat \<Rightarrow> pyfloat" where
  "fl_sub rnd (Finite x) (Finite y) = rnd (x - y)"
| "fl_sub rnd (Finite x) PosInf = NegInf"
| "fl_sub rnd (Finite x) NegInf = PosInf"
| "fl_sub rnd PosInf (Finite y) = PosInf"
| "fl_sub rnd PosInf NegInf = PosInf"
| "fl_sub rnd NegInf (Finite y) = NegInf"
| "fl_sub rnd NegInf PosInf = NegInf"
| "fl_sub rnd _ _ = NaN"

fun fl_mul :: "(real \<Rightarrow> pyfloat) \<Rightarrow> pyfloat \<Rightarrow> pyfloat \<Rightarrow> pyfloat" where
  "fl_mul rnd (Finite x) (Finite y) = rnd (x * y)"
| "fl_mul rnd (Finite x) PosInf = (if x = 0 then NaN else if 0 < x then PosInf else NegInf)"
| "fl_mul rnd (Finite x) NegInf = (if x = 0 then NaN else if 0 < x then NegInf else PosInf)"
| "fl_mul rnd PosInf (Finite y) = (if y = 0 then NaN else if 0 < y then PosInf else NegInf)"
| "fl_mul rnd NegInf (Finite y) = (if y = 0 then NaN else if 0 < y then NegInf else PosInf)"
| "fl_mul rnd PosInf PosInf = PosInf"
| "fl_mul rnd PosInf NegInf = NegInf"
| "fl_mul rnd NegInf PosInf = NegInf"
| "fl_mul rnd NegInf NegInf = PosInf"
| "fl_mul rnd _ _ = NaN"

fun fl_abs :: "pyfloat \<Rightarrow> pyfloat" where
  "fl_abs (Finite x) = Finite \<bar>x\<bar>"
| "fl_abs PosInf = PosInf"
| "fl_abs NegInf = PosInf"
| "fl_abs NaN = NaN"

text \<open>\<open>float(n)\<close> for an integer: the rounded value, or OverflowError when the integer is
  too large for a float.\<close>

definition int_to_float :: "(real \<Rightarrow> pyfloat) \<Rightarrow> int \<Rightarrow> py_error + pyfloat" where
  "int_to_float rnd n = (case rnd (of_int n) of Finite q \<Rightarrow> Inr (Finite q) | _ \<Rightarrow> Inl OverflowError)"

text \<open>\<open>int(x)\<close> for a float: truncation towards zero; an infinity raises OverflowError and
  NaN raises ValueError.\<close>

fun float_to_int :: "pyfloat \<Rightarrow> py_error + int" where
  "float_to_int (Finite x) = Inr (if 0 \<le> x then \<lfloor>x\<rfloor> else \<lceil>x\<rceil>)"
| "float_to_int PosInf = Inl OverflowError"
| "float_to_int NegInf = Inl OverflowError"
| "float_to_int NaN = Inl ValueError"

text \<open>The rounding that keeps every exact result: used to evaluate the model on inputs
  whose results are representable.\<close>

definition exact :: "real \<Rightarrow> pyfloat" where
  "exact x = Finite x"

subsection \<open>Operators on values\<close>

text \<open>The numeric reading of a value: \<open>bool\<close> is a subclass of \<open>int\<close>.\<close>

fun as_number :: "pyval \<Rightarrow> (int + pyfloat) option" where
  "as_number (PInt n) = Some (Inl n)"
| "as_number (PBool b) = Some (Inl (if b then 1 else 0))"
| "as_number (PFloat f) = Some (Inr f)"
| "as_number _ = None"

text \<open>\<open>v > n\<close> for an integer literal \<open>n\<close>: defined on numbers, TypeError on anything else
  (\<open>None > 0\<close> raises in Python 3).\<close>

definition py_gt_int :: "pyval \<Rightarrow> int \<Rightarrow> py_error + bool" where
  "py_gt_int v n =
     (case as_number v of
        Some (Inl a) \<Rightarrow> Inr (n < a)
      | Some (Inr f) \<Rightarrow> Inr (fl_gt f (Finite (of_int n)))
      | None \<Rightarrow> Inl TypeError)"

text \<open>\<open>v != n\<close> for an integer literal \<open>n\<close>: never raises; a value that is not a number
  differs from every integer.\<close>

definition py_ne_int :: "pyval \<Rightarrow> int \<Rightarrow> bool" where
  "py_ne_int v n =
     (case as_number v of
        Some (Inl a) \<Rightarrow> a \<noteq> n
      | Some (Inr f) \<Rightarrow> f \<noteq> Finite (of_int n)
      | None \<Rightarrow> True)"

text \<open>True division \<open>a / b\<close>: TypeError unless both are numbers, ZeroDivisionError on a
  zero divisor, a float otherwise.  Two integers are divided exactly and rounded once; a
  mixed pair is converted to floats first.\<close>

definition py_truediv :: "(real \<Rightarrow> pyfloat) \<Rightarrow> pyval \<Rightarrow> pyval \<Rightarrow> py_error + pyfloat" where
  "py_truediv rnd a b =
     (case (as_number a, as_number b) of
        (Some (Inl x), Some (Inl y)) \<Rightarrow>
          (if y = 0 then Inl ZeroDivisionError
           else (case rnd (of_int x / of_int y) of
                   Finite q \<Rightarrow> Inr (Finite q)
                 | _ \<Rightarrow> Inl OverflowError))
      | (Some (Inl x), Some (Inr g)) \<Rightarrow>
          (case int_to_float rnd x of
             Inl e \<Rightarrow> Inl e
           | Inr f \<Rightarrow> if g = Finite 0 then Inl ZeroDivisionError else Inr (fl_div rnd f g))
      | (Some (Inr f), Some (Inl y)) \<Rightarrow>
          (case int_to_float rnd y of
             Inl e \<Rightarrow> Inl e
           | Inr g \<Rightarrow> if g = Finite 0 then Inl ZeroDivisionError else Inr (fl_div rnd f g))
      | (Some (Inr f), Some (Inr g)) \<Rightarrow>
          (if g = Finite 0 then Inl ZeroDivisionError else Inr (fl_div rnd f g))
      | _ \<Rightarrow> Inl TypeError)"

subsection \<open>Fixed-point formatting\<close>

text \<open>\<open>f'{x:.pf}'\<close>: the value rounded to \<open>p\<close> decimals, ties to even, with a sign for a
  negative value; \<open>nan\<close> and \<open>inf\<close> are written by name.\<close>

definition digit :: "nat \<Rightarrow> char" where
  "digit n = ''0123456789'' ! n"

fun digits :: "nat \<Rightarrow> string" where
  "digits n = (if n < 10 then [digit n] else digits (n div 10) @ [digit (n mod 10)])"

declare digits.simps [simp del]

primrec fixed_digits :: "nat \<Rightarrow> nat \<Rightarrow> string" where
  "fixed_digits 0 n = []"
| "fixed_digits (Suc p) n = fixed_digits p (n div 10) @ [digit (n mod 10)]"

definition round_half_even :: "real \<Rightarrow> int" where
  "round_half_even x =
     (let f = \<lfloor>x\<rfloor>; d = x - of_int f
      in if d < 1 / 2 then f else if 1 / 2 < d then f + 1 else if even f then f else f + 1)"

definition format_fixed :: "nat \<Rightarrow> pyfloat \<Rightarrow> string" where
  "format_fixed p x =
     (case x of
        NaN \<Rightarrow> ''nan''
      | PosInf \<Rightarrow> ''inf''
      | NegInf \<Rightarrow> ''-inf''
      | Finite q \<Rightarrow>
          (let m = nat (round_half_even (\<bar>q\<bar> * 10 ^ p))
           in (if q < 0 then ''-'' else []) @ digits (m div 10 ^ p)
              @ (if p = 0 then [] else ''.'' @ fixed_digits p (m mod 10 ^ p))))"

section \<open>The result reducer (runner.py)\<close>

subsection \<open>safe\_get\<close>

text \<open>
  \<^verbatim>\<open>safe_get(analysis, keys, default=None)\<close>.  \<open>keys\<close> is a single key or a list of keys;
  a dictionary is read with \<open>.get(k)\<close>, which yields \<open>None\<close> for a missing key, anything
  else with \<open>getattr(val, k, None)\<close>.  The attribute lookup on a value that is not a
  dictionary is the parameter \<open>ga\<close> (it yields \<open>None\<close> when the attribute does not exist).
  Neither lookup raises on a string key, so the \<open>except\<close> clause of the source is never
  entered and the function always returns.
\<close>

datatype keys = Key string | Keys "string list"

fun key_list :: "keys \<Rightarrow> string list" where
  "key_list (Key k) = [k]"
| "key_list (Keys ks) = ks"

definition dict_get :: "(string \<times> pyval) list \<Rightarrow> string \<Rightarrow> pyval" where
  "dict_get d k = (case map_of d k of None \<Rightarrow> PNone | Some v \<Rightarrow> v)"

fun safe_get_loop :: "(pyval \<Rightarrow> string \<Rightarrow> pyval) \<Rightarrow> pyval \<Rightarrow> string list \<Rightarrow> pyval \<Rightarrow> pyval" where
  "safe_get_loop ga val [] dflt = (if val = PFloat NaN then dflt else val)"
| "safe_get_loop ga val (k # ks) dflt =
     (let val' = (case val of PDict d \<Rightarrow> dict_get d k | _ \<Rightarrow> ga val k)
      in if val' = PNone then dflt else safe_get_loop ga val' ks dflt)"

definition safe_get :: "(pyval \<Rightarrow> string \<Rightarrow> pyval) \<Rightarrow> pyval \<Rightarrow> keys \<Rightarrow> pyval \<Rightarrow> pyval" where
  "safe_get ga analysis ks dflt =
     (if analysis = PNone then dflt else safe_get_loop ga analysis (key_list ks) dflt)"

text \<open>
  The lookup as the specification words it: following the path either meets a missing key,
  or traverses a value that is \<open>None\<close>, or arrives at the value at the end of the path; the
  default is returned in the first two cases and for a final NaN.
\<close>

datatype lookup = KeyMissing | NoneTraversed | EndOfPath pyval

fun follow_path :: "(pyval \<Rightarrow> string \<Rightarrow> pyval) \<Rightarrow> pyval \<Rightarrow> string list \<Rightarrow> lookup" where
  "follow_path ga v [] = (if v = PNone then NoneTraversed else EndOfPath v)"
| "follow_path ga v (k # ks) =
     (if v = PNone then NoneTraversed
      else (case v of
              PDict d \<Rightarrow>
                (case map_of d k of None \<Rightarrow> KeyMissing | Some v' \<Rightarrow> follow_path ga v' ks)
            | _ \<Rightarrow> if ga v k = PNone then KeyMissing else follow_path ga (ga v k) ks))"

definition spec_safe_get :: "(pyval \<Rightarrow> string \<Rightarrow> pyval) \<Rightarrow> pyval \<Rightarrow> keys \<Rightarrow> pyval \<Rightarrow> pyval" where
  "spec_safe_get ga analysis ks dflt =
     (case follow_path ga analysis (key_list ks) of
        KeyMissing \<Rightarrow> dflt
      | NoneTraversed \<Rightarrow> dflt
      | EndOfPath v \<Rightarrow> if v = PFloat NaN then dflt else v)"

subsection \<open>The guarded ratios\<close>

text \<open>
  \<^verbatim>\<open>(safe_get(t, ['won','total'], 0) / safe_get(t, ['total','closed'], 1) * 100)
     if safe_get(t, ['total','closed']) > 0 else 0\<close>.
  The condition is evaluated first, with the default \<open>None\<close>.
\<close>

definition win_rate_pct :: "(real \<Rightarrow> pyfloat) \<Rightarrow> (pyval \<Rightarrow> string \<Rightarrow> pyval) \<Rightarrow> pyval \<Rightarrow> py_error + pyval" where
  "win_rate_pct rnd ga trade_analysis =
     (case py_gt_int (safe_get ga trade_analysis (Keys [''total'', ''closed'']) PNone) 0 of
        Inl e \<Rightarrow> Inl e
      | Inr True \<Rightarrow>
          (case py_truediv rnd
                  (safe_get ga trade_analysis (Keys [''won'', ''total'']) (PInt 0))
                  (safe_get ga trade_analysis (Keys [''total'', ''closed'']) (PInt 1)) of
             Inl e \<Rightarrow> Inl e
           | Inr q \<Rightarrow> Inr (PFloat (fl_mul rnd q (Finite 100))))
      | Inr False \<Rightarrow> Inr (PInt 0))"

text \<open>
  \<^verbatim>\<open>abs(safe_get(t, ['won','pnl','total'], 0) / safe_get(t, ['lost','pnl','total'], 1))
     if safe_get(t, ['lost','pnl5','total']) != 0 else None\<close>.
  The condition reads the key \<open>pnl5\<close>, as the source does.
\<close>

definition profit_factor :: "(real \<Rightarrow> pyfloat) \<Rightarrow> (pyval \<Rightarrow> string \<Rightarrow> pyval) \<Rightarrow> pyval \<Rightarrow> py_error + pyval" where
  "profit_factor rnd ga trade_analysis =
     (if py_ne_int (safe_get ga trade_analysis (Keys [''lost'', ''pnl5'', ''total'']) PNone) 0
      then (case py_truediv rnd
                    (safe_get ga trade_analysis (Keys [''won'', ''pnl'', ''total'']) (PInt 0))
                    (safe_get ga trade_analysis (Keys [''lost'', ''pnl'', ''total'']) (PInt 1)) of
              Inl e \<Rightarrow> Inl e
            | Inr q \<Rightarrow> Inr (PFloat (fl_abs q)))
      else Inr PNone)"

text \<open>\<^verbatim>\<open>((final_value - initial_value) / initial_value) * 100 if initial_value != 0 else 0\<close>\<close>

definition portfolio_return_pct :: "(real \<Rightarrow> pyfloat) \<Rightarrow> pyfloat \<Rightarrow> pyfloat \<Rightarrow> pyval" where
  "portfolio_return_pct rnd initial_value final_value =
     (if initial_value \<noteq> Finite 0
      then PFloat (fl_mul rnd (fl_div rnd (fl_sub rnd final_value initial_value) initial_value)
                     (Finite 100))
      else PInt 0)"

subsection \<open>run\_backtest\<close>

text \<open>
  What the backtesting engine hands back after setup and execution: the two portfolio
  snapshots and the outputs of the seven analyzers.  The engine is external; its outcome
  (these values, or the exception it raised) is a parameter of \<open>run_backtest\<close>.
\<close>

record engine_out =
  initial_value :: pyfloat
  final_value :: pyfloat
  sharpe_analysis :: pyval
  drawdown_analysis :: pyval
  trade_analysis :: pyval
  returns_analysis :: pyval
  calmar_analysis :: pyval
  sqn_analysis :: pyval
  annual_return_analysis :: pyval

text \<open>The dictionary assigned to \<open>results_data["results"]\<close>.  Its entries are evaluated
  in order; only the two guarded ratios can raise, the win rate before the profit factor.\<close>

definition consolidate :: "(real \<Rightarrow> pyfloat) \<Rightarrow> (pyval \<Rightarrow> string \<Rightarrow> pyval) \<Rightarrow> engine_out \<Rightarrow> py_error + (string \<times> pyval) list" where
  "consolidate rnd ga out =
     (let t = trade_analysis out in
      case win_rate_pct rnd ga t of
        Inl e \<Rightarrow> Inl e
      | Inr win_rate \<Rightarrow>
      (case profit_factor rnd ga t of
        Inl e \<Rightarrow> Inl e
      | Inr pf \<Rightarrow> Inr
         [(''initial_value'', PFloat (initial_value out)),
          (''final_value'', PFloat (final_value out)),
          (''portfolio_return_pct'',
             portfolio_return_pct rnd (initial_value out) (final_value out)),
          (''portfolio_net_pnl'', PFloat (fl_sub rnd (final_value out) (initial_value out))),
          (''annualized_return_pct'', safe_get ga (returns_analysis out) (Key ''rannually'') PNone),
          (''sharpe_ratio'', safe_get ga (sharpe_analysis out) (Key ''sharperatio'') PNone),
          (''calmar_ratio'', safe_get ga (calmar_analysis out) (Key ''calmar'') PNone),
          (''sqn'', safe_get ga (sqn_analysis out) (Key ''sqn'') PNone),
          (''max_drawdown_pct'',
             safe_get ga (drawdown_analysis out) (Keys [''max'', ''drawdown'']) PNone),
          (''max_drawdown_money'',
             safe_get ga (drawdown_analysis out) (Keys [''max'', ''moneydown'']) PNone),
          (''max_drawdown_duration_bars'',
             safe_get ga (drawdown_analysis out) (Keys [''max'', ''len'']) PNone),
          (''total_trades'', safe_get ga t (Keys [''total'', ''total'']) (PInt 0)),
          (''trades_open'', safe_get ga t (Keys [''total'', ''open'']) (PInt 0)),
          (''trades_closed'', safe_get ga t (Keys [''total'', ''closed'']) (PInt 0)),
          (''win_trades'', safe_get ga t (Keys [''won'', ''total'']) (PInt 0)),
          (''loss_trades'', safe_get ga t (Keys [''lost'', ''total'']) (PInt 0)),
          (''win_rate_pct'', win_rate),
          (''total_net_pnl'', safe_get ga t (Keys [''pnl'', ''net'', ''total'']) (PInt 0)),
          (''average_win_pnl'', safe_get ga t (Keys [''won'', ''pnl'', ''average'']) (PInt 0)),
          (''average_loss_pnl'', safe_get ga t (Keys [''lost'', ''pnl'', ''average'']) (PInt 0)),
          (''profit_factor'', pf),
          (''max_consecutive_wins'',
             safe_get ga t (Keys [''streak'', ''won'', ''longest'']) (PInt 0)),
          (''max_consecutive_losses'',
             safe_get ga t (Keys [''streak'', ''lost'', ''longest'']) (PInt 0)),
          (''average_trade_duration_bars'', safe_get ga t (Keys [''len'', ''average'']) PNone),
          (''annual_returns'', annual_return_analysis out)]))"

record run_parameters =
  symbols :: "string list"
  start_date :: string
  end_date :: string

record results_data =
  parameters :: run_parameters
  results :: "(string \<times> pyval) list"
  error :: "string option"

text \<open>How a call of \<open>run_backtest\<close> ends: it returns the record, or an exception leaves it;
  in the second case the record as it stood at the \<open>raise\<close> is kept for inspection.\<close>

datatype outcome = Returned results_data | Raised py_error results_data

text \<open>\<open>str_exc\<close> is Python's \<open>str(e)\<close>.  The \<open>try\<close> block covers the engine's setup and
  execution and the reduction of its output; the handler records the message and re-raises.\<close>

definition run_backtest ::
  "(real \<Rightarrow> pyfloat) \<Rightarrow> (pyval \<Rightarrow> string \<Rightarrow> pyval) \<Rightarrow> (py_error \<Rightarrow> string) \<Rightarrow>
   py_error + engine_out \<Rightarrow> string list \<Rightarrow> string \<Rightarrow> string \<Rightarrow> outcome" where
  "run_backtest rnd ga str_exc engine syms from_day to_day =
     (let rd = \<lparr>parameters = \<lparr>symbols = syms, start_date = from_day, end_date = to_day\<rparr>,
                 results = [], error = None\<rparr>
      in case engine of
           Inl e \<Rightarrow> Raised e (rd\<lparr>error := Some (str_exc e)\<rparr>)
         | Inr out \<Rightarrow>
             (case consolidate rnd ga out of
                Inl e \<Rightarrow> Raised e (rd\<lparr>error := Some (str_exc e)\<rparr>)
              | Inr res \<Rightarrow> Returned (rd\<lparr>results := res\<rparr>)))"

text \<open>The script's exit status: \<open>exit_code\<close> starts at 0 and is set to 1 by the handler
  around the run and the output of the JSON document; \<open>dump\<close> is that output (to the
  file under \<open>OUTPUT_DIR\<close> or to standard output), which may fail.\<close>

definition main_exit_code ::
  "(real \<Rightarrow> pyfloat) \<Rightarrow> (pyval \<Rightarrow> string \<Rightarrow> pyval) \<Rightarrow> (py_error \<Rightarrow> string) \<Rightarrow>
   py_error + engine_out \<Rightarrow> string list \<Rightarrow> (results_data \<Rightarrow> py_error + unit) \<Rightarrow> int" where
  "main_exit_code rnd ga str_exc engine syms dump =
     (case run_backtest rnd ga str_exc engine syms ''2023-01-01'' ''2024-12-31'' of
        Raised e rd \<Rightarrow> 1
      | Returned final_results \<Rightarrow>
          (case dump final_results of Inl e \<Rightarrow> 1 | Inr u \<Rightarrow> 0))"

section \<open>The signal policy (agent/agent.py)\<close>

text \<open>The strategy's parameters, with the defaults of the \<open>params\<close> tuple.\<close>

record params =
  model_name :: string
  seq_length :: int
  threshold :: pyfloat
  position_size :: pyfloat

definition default_params :: params where
  "default_params =
     \<lparr>model_name = ''distilbert-base-uncased'', seq_length = 10,
      threshold = Finite (6 / 10), position_size = Finite (15 / 100)\<rparr>"

text \<open>
  A data feed \<open>d\<close> as the policy sees it on one bar: its name \<open>d._name\<close>, the current close
  \<open>d.close[0]\<close> and the buffer \<open>d.lookback\<close> that the policy attaches to it.  The broker is
  read through \<open>getcash()\<close> and \<open>getposition(d).size\<close> (by the index of \<open>d\<close>); both belong
  to the engine and do not change while one call of \<open>next\<close> runs.
\<close>

record data =
  d_name :: string
  close0 :: pyfloat
  lookback :: "pyfloat list"

record broker =
  getcash :: pyfloat
  getposition :: "nat \<Rightarrow> int"

text \<open>What a call of \<open>next\<close> does to the outside: a call of the classifier on a feature
  text, an order intent (\<open>self.close(data=d)\<close>, \<open>self.buy(data=d, size=size)\<close>) or a printed
  line.  The first three carry the index of the data feed.\<close>

datatype event =
    Inference nat string
  | CloseIntent nat
  | BuyIntent nat int
  | Print string

fun subject :: "event \<Rightarrow> nat option" where
  "subject (Inference i t) = Some i"
| "subject (CloseIntent i) = Some i"
| "subject (BuyIntent i n) = Some i"
| "subject (Print l) = None"

fun is_intent :: "event \<Rightarrow> bool" where
  "is_intent (CloseIntent i) = True"
| "is_intent (BuyIntent i n) = True"
| "is_intent _ = False"

text \<open>The state that one call of \<open>next\<close> threads through its loop: the dictionary
  \<open>self.model_signals\<close>, the local variable \<open>size\<close> (unbound when \<open>None\<close>) and the events
  so far.\<close>

record frame =
  model_signals :: "nat \<rightharpoonup> int"
  size_var :: "int option"
  trace :: "event list"

text \<open>The slice \<open>xs[start:]\<close>: a negative start counts from the end and is clipped at 0.\<close>

definition slice_from :: "'a list \<Rightarrow> int \<Rightarrow> 'a list" where
  "slice_from xs start =
     (if start < 0 then drop (nat (int (length xs) + start)) xs else drop (nat start) xs)"

text \<open>\<^verbatim>\<open>recent[i] / recent[i - 1] - 1 if i > 0 else 0\<close>; the closes are floats, and a float
  division by zero raises.  The integer 0 of the first entry is written as the float it is
  formatted as.\<close>

definition simple_return :: "(real \<Rightarrow> pyfloat) \<Rightarrow> pyfloat list \<Rightarrow> nat \<Rightarrow> py_error + pyfloat" where
  "simple_return rnd recent i =
     (if 0 < i
      then (if recent ! (i - 1) = Finite 0 then Inl ZeroDivisionError
            else Inr (fl_sub rnd (fl_div rnd (recent ! i) (recent ! (i - 1))) (Finite 1)))
      else Inr (Finite 0))"

text \<open>A list comprehension whose element expression may raise: the elements are computed
  in order and the first exception ends it.\<close>

fun collect :: "('a \<Rightarrow> py_error + 'b) \<Rightarrow> 'a list \<Rightarrow> py_error + 'b list" where
  "collect f [] = Inr []"
| "collect f (x # xs) =
     (case f x of
        Inl e \<Rightarrow> Inl e
      | Inr y \<Rightarrow> (case collect f xs of Inl e \<Rightarrow> Inl e | Inr ys \<Rightarrow> Inr (y # ys)))"

definition returns :: "(real \<Rightarrow> pyfloat) \<Rightarrow> pyfloat list \<Rightarrow> py_error + pyfloat list" where
  "returns rnd recent = collect (simple_return rnd recent) [0..<length recent]"

fun join :: "string \<Rightarrow> string list \<Rightarrow> string" where
  "join sep [] = []"
| "join sep [x] = x"
| "join sep (x # y # zs) = x @ sep @ join sep (y # zs)"

text \<open>\<^verbatim>\<open>f"Price movements: {' '.join([f'{r:.4f}' for r in returns])}"\<close>\<close>

definition feature_text :: "pyfloat list \<Rightarrow> string" where
  "feature_text rs = ''Price movements: '' @ join '' '' (map (format_fixed 4) rs)"

text \<open>\<^verbatim>\<open>int(self.broker.getcash() * self.params.position_size / d.close[0])\<close>\<close>

definition order_size :: "(real \<Rightarrow> pyfloat) \<Rightarrow> pyfloat \<Rightarrow> pyfloat \<Rightarrow> pyfloat \<Rightarrow> py_error + int" where
  "order_size rnd cash fraction price =
     (if price = Finite 0 then Inl ZeroDivisionError
      else float_to_int (fl_div rnd (fl_mul rnd cash fraction) price))"

text \<open>\<^verbatim>\<open>f"BUY {d._name} at {d.close[0]:.2f}, confidence: {conf:.2f}"\<close>, and the same with
  \<open>SELL\<close>.\<close>

definition notice :: "string \<Rightarrow> data \<Rightarrow> pyfloat \<Rightarrow> string" where
  "notice label d conf =
     label @ '' '' @ d_name d @ '' at '' @ format_fixed 2 (close0 d)
       @ '', confidence: '' @ format_fixed 2 conf"

text \<open>The \<open>if\<close>/\<open>elif\<close> at the end of the loop body.  The first branch binds \<open>size\<close> before
  it tests it; the second reads \<open>size\<close>, which raises UnboundLocalError when nothing has
  bound it in this call.\<close>

definition execute_trades ::
  "(real \<Rightarrow> pyfloat) \<Rightarrow> params \<Rightarrow> broker \<Rightarrow> nat \<Rightarrow> data \<Rightarrow> int \<Rightarrow> pyfloat \<Rightarrow> frame \<Rightarrow>
   frame \<times> py_error option" where
  "execute_trades rnd P br i d pred conf fr =
     (if getposition br i = 0 \<and> pred = 2 \<and> fl_gt conf (threshold P)
      then (case order_size rnd (getcash br) (position_size P) (close0 d) of
              Inl e \<Rightarrow> (fr, Some e)
            | Inr sz \<Rightarrow>
                (if 0 < sz
                 then (fr\<lparr>size_var := Some sz,
                          trace := trace fr @ [CloseIntent i, Print (notice ''BUY'' d conf)]\<rparr>,
                       None)
                 else (fr\<lparr>size_var := Some sz\<rparr>, None)))
      else if getposition br i \<noteq> 0 \<and> pred = 0 \<and> fl_gt conf (threshold P)
      then (case size_var fr of
              None \<Rightarrow> (fr, Some UnboundLocalError)
            | Some sz \<Rightarrow>
                (fr\<lparr>trace := trace fr @ [BuyIntent i sz, Print (notice ''SELL'' d conf)]\<rparr>,
                 None))
      else (fr, None))"

text \<open>The body of \<open>for i, d in enumerate(self.datas)\<close>.  The classifier (tokenizer, model,
  softmax, argmax) is the parameter \<open>classify\<close>: from the feature text to the predicted
  class and its probability, or to the exception it raised.  The result is the data feed
  with its buffer extended, the frame, and the exception that ended the call, if any.\<close>

definition body ::
  "(real \<Rightarrow> pyfloat) \<Rightarrow> params \<Rightarrow> (string \<Rightarrow> py_error + int \<times> pyfloat) \<Rightarrow> broker \<Rightarrow>
   nat \<Rightarrow> data \<Rightarrow> frame \<Rightarrow> data \<times> frame \<times> py_error option" where
  "body rnd P classify br i d fr =
     (let d' = d\<lparr>lookback := lookback d @ [close0 d]\<rparr>
      in if int (length (lookback d')) < seq_length P then (d', fr, None)
         else
           (let recent = slice_from (lookback d') (- seq_length P)
            in case returns rnd recent of
                 Inl e \<Rightarrow> (d', fr, Some e)
               | Inr rs \<Rightarrow>
                   (let fr1 = fr\<lparr>trace := trace fr @ [Inference i (feature_text rs)]\<rparr>
                    in case classify (feature_text rs) of
                         Inl e \<Rightarrow> (d', fr1, Some e)
                       | Inr (pred, conf) \<Rightarrow>
                           (case execute_trades rnd P br i d' pred conf
                                   (fr1\<lparr>model_signals := (model_signals fr1)(i \<mapsto> pred)\<rparr>) of
                              (fr2, err) \<Rightarrow> (d', fr2, err)))))"

fun next_loop ::
  "(real \<Rightarrow> pyfloat) \<Rightarrow> params \<Rightarrow> (string \<Rightarrow> py_error + int \<times> pyfloat) \<Rightarrow> broker \<Rightarrow>
   nat \<Rightarrow> data list \<Rightarrow> frame \<Rightarrow> data list \<times> frame \<times> py_error option" where
  "next_loop rnd P classify br i [] fr = ([], fr, None)"
| "next_loop rnd P classify br i (d # ds) fr =
     (case body rnd P classify br i d fr of
        (d', fr', Some e) \<Rightarrow> (d' # ds, fr', Some e)
      | (d', fr', None) \<Rightarrow>
          (case next_loop rnd P classify br (Suc i) ds fr' of
             (ds', fr'', err) \<Rightarrow> (d' # ds', fr'', err)))"

text \<open>\<open>Agent.next\<close>: one call per bar.  \<open>size\<close> is a local variable of the call, so every
  call starts with it unbound.\<close>

definition next_bar ::
  "(real \<Rightarrow> pyfloat) \<Rightarrow> params \<Rightarrow> (string \<Rightarrow> py_error + int \<times> pyfloat) \<Rightarrow> broker \<Rightarrow>
   data list \<Rightarrow> (nat \<rightharpoonup> int) \<Rightarrow> data list \<times> frame \<times> py_error option" where
  "next_bar rnd P classify br datas signals =
     next_loop rnd P classify br 0 datas \<lparr>model_signals = signals, size_var = None, trace = []\<rparr>"

text \<open>
  A run, as the engine drives the policy (one pass through the bars, all data feeds in
  lock-step): for every bar the engine moves each data feed to the bar's close, presents
  its broker, and calls \<open>next\<close> once; an exception ends the run, since nothing between the
  policy and \<open>run_backtest\<close> catches it.  A bar gives the close of every data feed (by index)
  and the broker as it stands on that bar; both are the engine's and are inputs here.
\<close>

record bar =
  closes :: "nat \<Rightarrow> pyfloat"
  view :: broker

definition advance :: "data list \<Rightarrow> (nat \<Rightarrow> pyfloat) \<Rightarrow> data list" where
  "advance ds cs = map (\<lambda>(i, d). d\<lparr>close0 := cs i\<rparr>) (enumerate 0 ds)"

fun run ::
  "(real \<Rightarrow> pyfloat) \<Rightarrow> params \<Rightarrow> (string \<Rightarrow> py_error + int \<times> pyfloat) \<Rightarrow>
   data list \<Rightarrow> (nat \<rightharpoonup> int) \<Rightarrow> bar list \<Rightarrow> data list \<times> (nat \<rightharpoonup> int) \<times> event list \<times> py_error option" where
  "run rnd P classify ds sig [] = (ds, sig, [], None)"
| "run rnd P classify ds sig (b # bs) =
     (case next_bar rnd P classify (view b) (advance ds (closes b)) sig of
        (ds', fr, Some e) \<Rightarrow> (ds', model_signals fr, trace fr, Some e)
      | (ds', fr, None) \<Rightarrow>
          (case run rnd P classify ds' (model_signals fr) bs of
             (ds'', sig', tr, err) \<Rightarrow> (ds'', sig', trace fr @ tr, err)))"

section \<open>Inputs used in the evaluated examples\<close>

text \<open>An attribute lookup that finds nothing: ordinary analyzer keys are not attributes of
  numbers or strings.\<close>

definition no_attrs :: "pyval \<Rightarrow> string \<Rightarrow> pyval" where
  "no_attrs v k = PNone"

text \<open>What the trade analyzer reports when no trade was made (only \<open>total.total\<close>), after
  one closed trade that won (the losing side is all zeros), and after one win and one
  loss.\<close>

definition no_trades :: pyval where
  "no_trades = PDict [(''total'', PDict [(''total'', PInt 0)])]"

definition only_winners :: pyval where
  "only_winners =
     PDict [(''total'', PDict [(''total'', PInt 1), (''open'', PInt 0), (''closed'', PInt 1)]),
            (''won'', PDict [(''total'', PInt 1),
               (''pnl'', PDict [(''total'', PFloat (Finite 10)), (''average'', PFloat (Finite 10))])]),
            (''lost'', PDict [(''total'', PInt 0),
               (''pnl'', PDict [(''total'', PFloat (Finite 0)), (''average'', PFloat (Finite 0))])])]"

definition win_and_loss :: pyval where
  "win_and_loss =
     PDict [(''total'', PDict [(''total'', PInt 2), (''open'', PInt 0), (''closed'', PInt 2)]),
            (''won'', PDict [(''total'', PInt 1),
               (''pnl'', PDict [(''total'', PFloat (Finite 10)), (''average'', PFloat (Finite 10))])]),
            (''lost'', PDict [(''total'', PInt 1),
               (''pnl'', PDict [(''total'', PFloat (Finite (- 5))), (''average'', PFloat (Finite (- 5)))])])]"

text \<open>An engine outcome around a given trade analysis, the portfolio unchanged.\<close>

definition engine_result :: "pyval \<Rightarrow> engine_out" where
  "engine_result t =
     \<lparr>initial_value = Finite 10000, final_value = Finite 10000,
      sharpe_analysis = PDict [(''sharperatio'', PNone)],
      drawdown_analysis = PDict [(''max'', PDict [(''drawdown'', PFloat (Finite 0))])],
      trade_analysis = t,
      returns_analysis = PDict [(''rannually'', PFloat (Finite 0))],
      calmar_analysis = PDict [],
      sqn_analysis = PDict [(''sqn'', PInt 0)],
      annual_return_analysis = PDict []\<rparr>"

text \<open>A stand-in for \<open>str(e)\<close>: the name of the exception class, or the external label.\<close>

definition error_text :: "py_error \<Rightarrow> string" where
  "error_text e =
     (case e of
        TypeError \<Rightarrow> ''TypeError''
      | ZeroDivisionError \<Rightarrow> ''ZeroDivisionError''
      | OverflowError \<Rightarrow> ''OverflowError''
      | ValueError \<Rightarrow> ''ValueError''
      | UnboundLocalError \<Rightarrow> ''UnboundLocalError''
      | OtherError l \<Rightarrow> l)"

text \<open>A classifier with a fixed answer, and one that answers up on a flat window and down
  otherwise.\<close>

definition always :: "int \<Rightarrow> pyfloat \<Rightarrow> string \<Rightarrow> py_error + int \<times> pyfloat" where
  "always pred conf text = Inr (pred, conf)"

definition flat_text :: string where
  "flat_text = ''Price movements: 0.0000 0.0000 0.0000 0.0000 0.0000 0.0000 0.0000 0.0000 0.0000 0.0000''"

definition rise_text :: string where
  "rise_text = ''Price movements: 0.0000 0.0000 0.0000 0.0000 0.0000 0.0000 0.0000 0.0000 0.0000 0.0100''"

definition up_when_flat :: "string \<Rightarrow> py_error + int \<times> pyfloat" where
  "up_when_flat text = (if text = flat_text then Inr (2, Finite (9 / 10)) else Inr (0, Finite (9 / 10)))"

text \<open>A data feed with its past closes and its current close; brokers with 10000 in cash
  and no position, a position of 5 everywhere, or a position of 5 in the second feed only.\<close>

definition feed :: "string \<Rightarrow> real list \<Rightarrow> real \<Rightarrow> data" where
  "feed name past c = \<lparr>d_name = name, close0 = Finite c, lookback = map Finite past\<rparr>"

definition nine :: "real \<Rightarrow> real list" where
  "nine c = [c, c, c, c, c, c, c, c, c]"

definition flat_broker :: broker where
  "flat_broker = \<lparr>getcash = Finite 10000, getposition = (\<lambda>i. 0)\<rparr>"

definition long_broker :: broker where
  "long_broker = \<lparr>getcash = Finite 10000, getposition = (\<lambda>i. 5)\<rparr>"

definition second_long :: broker where
  "second_long = \<lparr>getcash = Finite 10000, getposition = (\<lambda>i. if i = 1 then 5 else 0)\<rparr>"

text \<open>The frame at the start of a call of \<open>next\<close>.\<close>

definition fresh :: frame where
  "fresh = \<lparr>model_signals = Map.empty, size_var = None, trace = []\<rparr>"

section \<open>Properties of safe\_get\<close>

lemma fixed_digits_numeral [simp]:
  "fixed_digits (numeral k) n = fixed_digits (pred_numeral k) (n div 10) @ [digit (n mod 10)]"
  unfolding numeral_eq_Suc [of k] by simp

lemma safe_get_loop_follow:
  "v \<noteq> PNone \<Longrightarrow>
   safe_get_loop ga v ks dflt =
     (case follow_path ga v ks of
        KeyMissing \<Rightarrow> dflt
      | NoneTraversed \<Rightarrow> dflt
      | EndOfPath w \<Rightarrow> if w = PFloat NaN then dflt else w)"
proof (induction ks arbitrary: v)
  case Nil
  then show ?case by simp
next
  case (Cons k ks)
  show ?case
  proof (cases v)
    case (PDict d)
    show ?thesis
    proof (cases "map_of d k")
      case None
      with PDict show ?thesis by (simp add: dict_get_def)
    next
      case (Some w)
      show ?thesis
      proof (cases "w = PNone")
        case True
        with PDict Some show ?thesis by (cases ks) (simp_all add: dict_get_def)
      next
        case False
        with PDict Some Cons.IH [of w] show ?thesis by (simp add: dict_get_def)
      qed
    qed
  next
    case PNone
    with Cons.prems show ?thesis by simp
  qed (use Cons.IH [of "ga v k"] in \<open>simp_all add: Let_def\<close>)
qed

text \<open>
  C5.  For every analysis structure, key path and default, \<open>safe_get\<close> returns the default
  when a key of the path is missing, when a traversed value is \<open>None\<close> (the analysis itself
  included) or when the final value is a NaN float, and the value at the end of the path
  otherwise; being a total function of its arguments, it never raises.
\<close>

theorem safe_get_meets_spec:
  "safe_get ga analysis ks dflt = spec_safe_get ga analysis ks dflt"
proof (cases "analysis = PNone")
  case True
  then show ?thesis
    by (cases "key_list ks") (simp_all add: safe_get_def spec_safe_get_def)
next
  case False
  then show ?thesis
    by (simp add: safe_get_def spec_safe_get_def safe_get_loop_follow)
qed

lemmas evaluate =
  body_def execute_trades_def returns_def simple_return_def slice_from_def feature_text_def
  order_size_def notice_def default_params_def fl_gt_def exact_def always_def feed_def
  flat_broker_def long_broker_def fresh_def flat_text_def rise_text_def
  up_when_flat_def nine_def second_long_def
  format_fixed_def round_half_even_def digits.simps digit_def Let_def

lemma safe_get_EndOfPath:
  assumes "follow_path ga analysis (key_list ks) = EndOfPath v" and "v \<noteq> PFloat NaN"
  shows "safe_get ga analysis ks dflt = v"
proof -
  have "analysis \<noteq> PNone" using assms(1) by (cases "key_list ks") auto
  then show ?thesis using assms by (simp add: safe_get_def safe_get_loop_follow)
qed

lemma safe_get_KeyMissing:
  assumes "follow_path ga analysis (key_list ks) = KeyMissing"
  shows "safe_get ga analysis ks dflt = dflt"
proof -
  have "analysis \<noteq> PNone" using assms by (cases "key_list ks") auto
  then show ?thesis using assms by (simp add: safe_get_def safe_get_loop_follow)
qed

text \<open>
  A value that is present at the end of the path and is falsy but not \<open>None\<close> (the
  integer 0, the float 0.0, \<open>False\<close>) is returned as it is, whatever the default; the
  win-rate guard, which reads \<open>total.closed\<close>, then sees a genuine zero and yields 0.
\<close>

lemma safe_get_returns_present_zero:
  assumes "follow_path ga analysis (key_list ks) = EndOfPath v"
    and "v = PInt 0 \<or> v = PFloat (Finite 0) \<or> v = PBool False"
  shows "safe_get ga analysis ks dflt = v \<and>
         (ks = Keys [''total'', ''closed''] \<longrightarrow> win_rate_pct rnd ga analysis = Inr (PInt 0))"
proof -
  have nn: "v \<noteq> PFloat NaN" using assms(2) by auto
  have a: "\<And>d. safe_get ga analysis ks d = v"
    using safe_get_EndOfPath [OF assms(1) nn] by simp
  have "win_rate_pct rnd ga analysis = Inr (PInt 0)" if "ks = Keys [''total'', ''closed'']"
    using a [of PNone] assms(2) that
    by (auto simp add: win_rate_pct_def py_gt_int_def fl_gt_def)
  with a show ?thesis by simp
qed

lemma win_rate_guard_sees_zero:
  "safe_get no_attrs (PDict [(''total'', PDict [(''closed'', PInt 0)])]) (Keys [''total'', ''closed'']) (PInt 1) = PInt 0
   \<and> win_rate_pct exact no_attrs (PDict [(''total'', PDict [(''closed'', PInt 0)])]) = Inr (PInt 0)"
  using safe_get_returns_present_zero [of no_attrs "PDict [(''total'', PDict [(''closed'', PInt 0)])]"
      "Keys [''total'', ''closed'']" "PInt 0" "PInt 1" exact]
  by simp

section \<open>Properties of the guarded ratios\<close>

text \<open>
  C4.  The claim is that the win rate is 0 whenever no trade was closed, a missing
  \<open>total.closed\<close> included, and that computing it never raises.  On the analysis of a run
  without trades, and on an empty analysis, the guard compares \<open>None\<close> with 0 and the
  computation raises TypeError.
\<close>

theorem win_rate_pct_no_trades_raises:
  "win_rate_pct rnd ga no_trades = Inl TypeError \<and> win_rate_pct rnd ga (PDict []) = Inl TypeError"
  by (simp add: win_rate_pct_def no_trades_def safe_get_def dict_get_def py_gt_int_def)

text \<open>
  C3.  The claim is that the profit factor is \<open>None\<close> whenever \<open>lost.pnl.total\<close> is zero or
  absent, and that computing it never divides by zero.  The guard reads the key \<open>pnl5\<close>,
  which no analysis has, so the division is always made: after a single winning trade the
  divisor is the float 0.0 and the computation raises ZeroDivisionError.
\<close>

theorem profit_factor_zero_loss_raises:
  "profit_factor rnd ga only_winners = Inl ZeroDivisionError"
  by (simp add: profit_factor_def only_winners_def safe_get_def dict_get_def py_ne_int_def
      py_truediv_def)

lemma profit_factor_absent_loss:
  "profit_factor exact ga
     (PDict [(''won'', PDict [(''pnl'', PDict [(''total'', PFloat (Finite 10))])])])
   = Inr (PFloat (Finite 10))"
  by (simp add: profit_factor_def safe_get_def dict_get_def py_ne_int_def py_truediv_def
      int_to_float_def exact_def)

text \<open>
  Whenever \<open>lost.pnl.total\<close> is a present zero and the analysis has no \<open>lost.pnl5.total\<close>,
  the guard of the profit factor lets the division through: the result is never \<open>None\<close>.
\<close>

lemma profit_factor_never_none:
  assumes "follow_path ga analysis [''lost'', ''pnl'', ''total''] = EndOfPath v"
    and "v = PInt 0 \<or> v = PFloat (Finite 0) \<or> v = PBool False"
    and "follow_path ga analysis [''lost'', ''pnl5'', ''total''] = KeyMissing"
  shows "safe_get ga analysis (Keys [''lost'', ''pnl'', ''total'']) (PInt 1) = v \<and>
         safe_get ga analysis (Keys [''lost'', ''pnl5'', ''total'']) PNone = PNone \<and>
         profit_factor rnd ga analysis \<noteq> Inr PNone"
proof -
  have nn: "v \<noteq> PFloat NaN" using assms(2) by auto
  have a: "safe_get ga analysis (Keys [''lost'', ''pnl'', ''total'']) (PInt 1) = v"
    using safe_get_EndOfPath [of ga analysis "Keys [''lost'', ''pnl'', ''total'']" v] assms(1) nn
    by simp
  have b: "safe_get ga analysis (Keys [''lost'', ''pnl5'', ''total'']) PNone = PNone"
    using safe_get_KeyMissing [of ga analysis "Keys [''lost'', ''pnl5'', ''total'']"] assms(3)
    by simp
  have "profit_factor rnd ga analysis \<noteq> Inr PNone"
    unfolding profit_factor_def b by (simp add: py_ne_int_def split: sum.splits)
  with a b show ?thesis by simp
qed

text \<open>
  C10.  The claim is that \<open>safe_get\<close> returns a present zero as it is, so that the guards of
  the win rate and of the profit factor observe it.  On the analysis left by a single winning
  trade \<open>safe_get\<close> does return the float 0.0 at \<open>lost.pnl.total\<close>, in spite of the default 1;
  but the guard of the profit factor reads \<open>lost.pnl5.total\<close>, gets \<open>None\<close>, which differs
  from 0, and never observes that zero: the division is made and raises ZeroDivisionError.
\<close>

theorem profit_factor_guard_misses_zero:
  "safe_get ga only_winners (Keys [''lost'', ''pnl'', ''total'']) (PInt 1) = PFloat (Finite 0)
   \<and> safe_get ga only_winners (Keys [''lost'', ''pnl5'', ''total'']) PNone = PNone
   \<and> py_ne_int PNone 0
   \<and> profit_factor rnd ga only_winners = Inl ZeroDivisionError"
  by (simp add: profit_factor_def only_winners_def safe_get_def dict_get_def py_ne_int_def
      py_truediv_def)

section \<open>Properties of run\_backtest\<close>

lemma consolidate_raises:
  "consolidate rnd ga (engine_result no_trades) = Inl TypeError"
  by (simp add: consolidate_def engine_result_def no_trades_def win_rate_pct_def safe_get_def dict_get_def py_gt_int_def)

lemma win_rate_win_and_loss: "win_rate_pct exact ga win_and_loss = Inr (PFloat (Finite 50))"
  by (simp add: win_rate_pct_def win_and_loss_def safe_get_def dict_get_def py_gt_int_def py_truediv_def exact_def)

lemma profit_factor_win_and_loss: "profit_factor exact ga win_and_loss = Inr (PFloat (Finite 2))"
  by (simp add: profit_factor_def win_and_loss_def safe_get_def dict_get_def py_ne_int_def py_truediv_def exact_def)

lemma consolidate_ok:
  "\<exists>res. consolidate exact ga (engine_result win_and_loss) = Inr res"
  by (simp add: consolidate_def engine_result_def win_rate_win_and_loss profit_factor_win_and_loss)

text \<open>
  C9.  When the engine (setup and execution) or the reduction of its output raises,
  \<open>run_backtest\<close> leaves by that exception, after recording its string form in the \<open>error\<close>
  field of the record that already holds the symbols and the date range, and the script
  exits with status 1; when nothing raises and the JSON document is written, the script
  exits with status 0.
\<close>

theorem run_backtest_exit_status:
  "((engine = Inl e \<or> (\<exists>out. engine = Inr out \<and> consolidate rnd ga out = Inl e)) \<longrightarrow>
      run_backtest rnd ga str_exc engine syms from_day to_day =
        Raised e \<lparr>parameters = \<lparr>symbols = syms, start_date = from_day, end_date = to_day\<rparr>,
                  results = [], error = Some (str_exc e)\<rparr>
      \<and> main_exit_code rnd ga str_exc engine syms dump = 1)
   \<and> ((engine = Inr out \<and> consolidate rnd ga out = Inr res \<and>
        dump \<lparr>parameters = \<lparr>symbols = syms, start_date = ''2023-01-01'', end_date = ''2024-12-31''\<rparr>,
               results = res, error = None\<rparr> = Inr ()) \<longrightarrow>
      main_exit_code rnd ga str_exc engine syms dump = 0)"
  by (auto simp add: run_backtest_def main_exit_code_def)

theorem run_backtest_exit_status_witness:
  "run_backtest exact no_attrs error_text (Inr (engine_result no_trades)) [''AAPL'']
       ''2023-01-01'' ''2024-12-31''
     = Raised TypeError
         \<lparr>parameters = \<lparr>symbols = [''AAPL''], start_date = ''2023-01-01'', end_date = ''2024-12-31''\<rparr>,
          results = [], error = Some ''TypeError''\<rparr>
   \<and> main_exit_code exact no_attrs error_text (Inr (engine_result no_trades)) [''AAPL'']
       (\<lambda>r. Inr ()) = 1
   \<and> main_exit_code exact no_attrs error_text (Inl (OtherError ''FileNotFoundError'')) [''AAPL'']
       (\<lambda>r. Inr ()) = 1
   \<and> main_exit_code exact no_attrs error_text (Inr (engine_result win_and_loss)) [''AAPL'']
       (\<lambda>r. Inr ()) = 0"
proof -
  obtain res where r: "consolidate exact no_attrs (engine_result win_and_loss) = Inr res"
    using consolidate_ok by blast
  have a: "run_backtest exact no_attrs error_text (Inr (engine_result no_trades)) [''AAPL'']
       ''2023-01-01'' ''2024-12-31''
     = Raised TypeError
         \<lparr>parameters = \<lparr>symbols = [''AAPL''], start_date = ''2023-01-01'', end_date = ''2024-12-31''\<rparr>,
          results = [], error = Some ''TypeError''\<rparr>
   \<and> main_exit_code exact no_attrs error_text (Inr (engine_result no_trades)) [''AAPL'']
       (\<lambda>r. Inr ()) = 1"
    using run_backtest_exit_status
      [where engine = "Inr (engine_result no_trades)" and e = TypeError and rnd = exact
         and ga = no_attrs and str_exc = error_text and syms = "[''AAPL'']"
         and from_day = "''2023-01-01''" and to_day = "''2024-12-31''" and dump = "\<lambda>r. Inr ()"]
      consolidate_raises [of exact no_attrs]
    by (simp add: error_text_def)
  have b: "main_exit_code exact no_attrs error_text (Inl (OtherError ''FileNotFoundError'')) [''AAPL'']
       (\<lambda>r. Inr ()) = 1"
    using run_backtest_exit_status
      [where engine = "Inl (OtherError ''FileNotFoundError'')" and e = "OtherError ''FileNotFoundError''"
         and rnd = exact and ga = no_attrs and str_exc = error_text and syms = "[''AAPL'']"
         and dump = "\<lambda>r. Inr ()"]
    by simp
  have c: "main_exit_code exact no_attrs error_text (Inr (engine_result win_and_loss)) [''AAPL'']
       (\<lambda>r. Inr ()) = 0"
    using run_backtest_exit_status
      [where engine = "Inr (engine_result win_and_loss)" and out = "engine_result win_and_loss"
         and res = res and rnd = exact and ga = no_attrs and str_exc = error_text
         and syms = "[''AAPL'']" and dump = "\<lambda>r. Inr ()"] r
    by simp
  from a b c show ?thesis by simp
qed

section \<open>Properties of the signal policy\<close>

lemma fl_le_not_gt: "fl_le a b \<Longrightarrow> \<not> fl_gt a b"
  by (cases a; cases b) (auto simp add: fl_le_def fl_gt_def)

lemma notice_lookback [simp]: "notice label (d\<lparr>lookback := xs\<rparr>) conf = notice label d conf"
  by (simp add: notice_def)

lemma body_short:
  "int (length (lookback d)) + 1 < seq_length P \<Longrightarrow>
   body rnd P classify br i d fr = (d\<lparr>lookback := lookback d @ [close0 d]\<rparr>, fr, None)"
  by (simp add: body_def)

lemma execute_trades_trace:
  "execute_trades rnd P br i d pred conf fr = (fr', err) \<Longrightarrow>
   \<exists>es. trace fr' = trace fr @ es \<and> (\<forall>e\<in>set es. subject e = Some i \<or> subject e = None)"
  by (auto simp add: execute_trades_def split: if_splits sum.splits option.splits)

lemma body_trace:
  assumes "body rnd P classify br i d fr = (d', fr', err)"
  shows "\<exists>es. trace fr' = trace fr @ es \<and>
           (\<forall>e\<in>set es. subject e = Some i \<or> subject e = None) \<and>
           (es \<noteq> [] \<longrightarrow> seq_length P \<le> int (length (lookback d)) + 1)"
proof (cases "int (length (lookback d)) + 1 < seq_length P")
  case True
  with assms show ?thesis by (simp add: body_short)
next
  case False
  show ?thesis
  proof (cases "returns rnd (slice_from (lookback d @ [close0 d]) (- seq_length P))")
    case (Inl e)
    with False assms show ?thesis by (simp add: body_def)
  next
    case (Inr rs)
    show ?thesis
    proof (cases "classify (feature_text rs)")
      case (Inl e)
      with False Inr assms show ?thesis by (auto simp add: body_def)
    next
      case r: (Inr pc)
      obtain pred conf where pc: "pc = (pred, conf)" by (cases pc)
      let ?fr1 = "fr\<lparr>trace := trace fr @ [Inference i (feature_text rs)]\<rparr>"
      let ?fr2 = "?fr1\<lparr>model_signals := (model_signals ?fr1)(i \<mapsto> pred)\<rparr>"
      obtain fr2 e2 where ex: "execute_trades rnd P br i (d\<lparr>lookback := lookback d @ [close0 d]\<rparr>) pred conf ?fr2 = (fr2, e2)"
        by (cases "execute_trades rnd P br i (d\<lparr>lookback := lookback d @ [close0 d]\<rparr>) pred conf ?fr2")
      from execute_trades_trace [OF ex] obtain es where
        es: "trace fr2 = trace ?fr2 @ es" "\<forall>e\<in>set es. subject e = Some i \<or> subject e = None"
        by blast
      have "fr' = fr2" using False Inr r pc ex assms by (simp add: body_def)
      with es False show ?thesis by auto
    qed
  qed
qed

lemma next_loop_trace:
  "next_loop rnd P classify br i ds fr = (ds', fr', err) \<Longrightarrow>
   \<exists>es. trace fr' = trace fr @ es \<and>
     (\<forall>e\<in>set es. \<forall>j. subject e = Some j \<longrightarrow>
        i \<le> j \<and> j < i + length ds \<and> seq_length P \<le> int (length (lookback (ds ! (j - i)))) + 1)"
proof (induction ds arbitrary: i fr ds' fr' err)
  case Nil
  then show ?case by simp
next
  case (Cons d ds)
  obtain d1 fr1 e1 where b: "body rnd P classify br i d fr = (d1, fr1, e1)"
    by (cases "body rnd P classify br i d fr")
  from body_trace [OF b] obtain es1 where
    es1: "trace fr1 = trace fr @ es1"
      "\<forall>e\<in>set es1. subject e = Some i \<or> subject e = None"
      "es1 \<noteq> [] \<longrightarrow> seq_length P \<le> int (length (lookback d)) + 1"
    by blast
  have here: "\<forall>e\<in>set es1. \<forall>j. subject e = Some j \<longrightarrow>
      i \<le> j \<and> j < i + length (d # ds) \<and>
      seq_length P \<le> int (length (lookback ((d # ds) ! (j - i)))) + 1"
    using es1(2,3) by fastforce
  show ?case
  proof (cases e1)
    case (Some e)
    with b Cons.prems have "fr' = fr1" by simp
    with es1(1) here show ?thesis by blast
  next
    case None
    obtain ds2 fr2 e2 where l: "next_loop rnd P classify br (Suc i) ds fr1 = (ds2, fr2, e2)"
      by (cases "next_loop rnd P classify br (Suc i) ds fr1")
    from Cons.IH [OF l] obtain es2 where
      es2: "trace fr2 = trace fr1 @ es2"
        "\<forall>e\<in>set es2. \<forall>j. subject e = Some j \<longrightarrow>
           Suc i \<le> j \<and> j < Suc i + length ds \<and>
           seq_length P \<le> int (length (lookback (ds ! (j - Suc i)))) + 1"
      by blast
    have there: "\<forall>e\<in>set es2. \<forall>j. subject e = Some j \<longrightarrow>
        i \<le> j \<and> j < i + length (d # ds) \<and>
        seq_length P \<le> int (length (lookback ((d # ds) ! (j - i)))) + 1"
    proof (intro ballI allI impI)
      fix e j assume e: "e \<in> set es2" and s: "subject e = Some j"
      from es2(2) e s have j: "Suc i \<le> j" "j < Suc i + length ds"
        "seq_length P \<le> int (length (lookback (ds ! (j - Suc i)))) + 1" by blast+
      from j(1) have "(d # ds) ! (j - i) = ds ! (j - Suc i)"
        by (simp add: nth_Cons' Suc_diff_le) 
      with j show "i \<le> j \<and> j < i + length (d # ds) \<and>
        seq_length P \<le> int (length (lookback ((d # ds) ! (j - i)))) + 1" by simp
    qed
    from None b l Cons.prems have "fr' = fr2" by simp
    with es1(1) es2(1) have "trace fr' = trace fr @ (es1 @ es2)" by simp
    moreover have "\<forall>e\<in>set (es1 @ es2). \<forall>j. subject e = Some j \<longrightarrow>
        i \<le> j \<and> j < i + length (d # ds) \<and>
        seq_length P \<le> int (length (lookback ((d # ds) ! (j - i)))) + 1"
      using here there by auto
    ultimately show ?thesis by blast
  qed
qed

text \<open>
  C6.  On a bar where the buffer of a data feed, after the current close has been appended,
  has fewer than \<open>seq_length\<close> entries, the call of \<open>next\<close> produces no event for that feed:
  no call of the classifier and no order intent.
\<close>

theorem no_signal_before_seq_length:
  assumes "i < length datas"
    and "int (length (lookback (datas ! i))) + 1 < seq_length P"
  shows "\<forall>e \<in> set (trace (fst (snd (next_bar rnd P classify br datas signals)))). subject e \<noteq> Some i"
proof -
  obtain ds' fr' err where n: "next_loop rnd P classify br 0 datas
      \<lparr>model_signals = signals, size_var = None, trace = []\<rparr> = (ds', fr', err)"
    by (cases "next_loop rnd P classify br 0 datas \<lparr>model_signals = signals, size_var = None, trace = []\<rparr>")
  from next_loop_trace [OF n] obtain es where
    es: "trace fr' = es"
      "\<forall>e\<in>set es. \<forall>j. subject e = Some j \<longrightarrow>
        j < length datas \<and> seq_length P \<le> int (length (lookback (datas ! j))) + 1"
    by auto
  with assms(2) have "\<forall>e\<in>set es. subject e \<noteq> Some i" by fastforce
  with es(1) n show ?thesis by (simp add: next_bar_def)
qed

theorem no_signal_before_seq_length_witness:
  "0 < length [feed ''AAA'' [100, 101, 102] 103]
   \<and> int (length (lookback ([feed ''AAA'' [100, 101, 102] 103] ! 0))) + 1 < seq_length default_params
   \<and> list_all (\<lambda>e. subject e \<noteq> Some 0)
        (trace (fst (snd (next_bar exact default_params (always 2 (Finite (9 / 10))) flat_broker
           [feed ''AAA'' [100, 101, 102] 103] Map.empty))))"
  using no_signal_before_seq_length
    [of 0 "[feed ''AAA'' [100, 101, 102] 103]" default_params exact "always 2 (Finite (9 / 10))"
        flat_broker Map.empty]
  by (simp add: list_all_iff feed_def default_params_def)

lemma execute_trades_quiet:
  "\<not> fl_gt conf (threshold P) \<Longrightarrow> execute_trades rnd P br i d pred conf fr = (fr, None)"
  by (simp add: execute_trades_def)

lemma body_quiet:
  assumes "\<forall>text pred conf. classify text = Inr (pred, conf) \<longrightarrow> \<not> fl_gt conf (threshold P)"
    and "body rnd P classify br i d fr = (d', fr', err)"
  shows "filter is_intent (trace fr') = filter is_intent (trace fr)"
  using assms
  by (auto simp add: body_def Let_def execute_trades_quiet split: if_splits sum.splits)

lemma next_loop_quiet:
  assumes "\<forall>text pred conf. classify text = Inr (pred, conf) \<longrightarrow> \<not> fl_gt conf (threshold P)"
  shows "next_loop rnd P classify br i ds fr = (ds', fr', err) \<Longrightarrow>
         filter is_intent (trace fr') = filter is_intent (trace fr)"
proof (induction ds arbitrary: i fr ds' fr' err)
  case Nil
  then show ?case by simp
next
  case (Cons d ds)
  obtain d1 fr1 e1 where b: "body rnd P classify br i d fr = (d1, fr1, e1)"
    by (cases "body rnd P classify br i d fr")
  note q = body_quiet [OF assms b]
  show ?case
  proof (cases e1)
    case (Some e)
    with b Cons.prems q show ?thesis by simp
  next
    case None
    obtain ds2 fr2 e2 where l: "next_loop rnd P classify br (Suc i) ds fr1 = (ds2, fr2, e2)"
      by (cases "next_loop rnd P classify br (Suc i) ds fr1")
    from None b l Cons.prems have "fr' = fr2" by simp
    with Cons.IH [OF l] q show ?thesis by simp
  qed
qed

lemma run_quiet:
  assumes "\<forall>text pred conf. classify text = Inr (pred, conf) \<longrightarrow> \<not> fl_gt conf (threshold P)"
  shows "run rnd P classify ds sig bars = (ds', sig', tr, err) \<Longrightarrow> filter is_intent tr = []"
proof (induction bars arbitrary: ds sig ds' sig' tr err)
  case Nil
  then show ?case by simp
next
  case (Cons b bs)
  obtain ds1 fr1 e1 where n: "next_bar rnd P classify (view b) (advance ds (closes b)) sig = (ds1, fr1, e1)"
    by (cases "next_bar rnd P classify (view b) (advance ds (closes b)) sig")
  have q: "filter is_intent (trace fr1) = []"
    using next_loop_quiet [OF assms n [unfolded next_bar_def]] by simp
  show ?case
  proof (cases e1)
    case (Some e)
    with n Cons.prems q show ?thesis by simp
  next
    case None
    obtain ds2 sig2 tr2 e2 where r: "run rnd P classify ds1 (model_signals fr1) bs = (ds2, sig2, tr2, e2)"
      by (cases "run rnd P classify ds1 (model_signals fr1) bs")
    from None n r Cons.prems have "tr = trace fr1 @ tr2" by simp
    with Cons.IH [OF r] q show ?thesis by simp
  qed
qed

text \<open>
  C8.  In a run where every answer of the classifier has a confidence less than or equal to
  the threshold, no order intent is issued on any bar for any data feed, whatever the
  predicted classes are (and also when the run is ended by an exception).
\<close>

theorem no_intent_below_threshold:
  assumes "\<forall>text pred conf. classify text = Inr (pred, conf) \<longrightarrow> fl_le conf (threshold P)"
  shows "filter is_intent (fst (snd (snd (run rnd P classify ds sig bars)))) = []"
proof -
  have a: "\<forall>text pred conf. classify text = Inr (pred, conf) \<longrightarrow> \<not> fl_gt conf (threshold P)"
    using assms fl_le_not_gt by blast
  obtain ds' sig' tr err where r: "run rnd P classify ds sig bars = (ds', sig', tr, err)"
    by (cases "run rnd P classify ds sig bars")
  from run_quiet [OF a r] r show ?thesis by simp
qed

theorem no_intent_below_threshold_witness:
  "fl_le (Finite (1 / 2)) (threshold default_params)
   \<and> filter is_intent (fst (snd (snd (run exact default_params (always 2 (Finite (1 / 2)))
        [feed ''AAA'' (nine 100) 100] Map.empty
        [\<lparr>closes = (\<lambda>i. Finite 100), view = flat_broker\<rparr>,
         \<lparr>closes = (\<lambda>i. Finite 101), view = flat_broker\<rparr>])))) = []"
  using no_intent_below_threshold
    [of "always 2 (Finite (1 / 2))" default_params exact "[feed ''AAA'' (nine 100) 100]" Map.empty
        "[\<lparr>closes = (\<lambda>i. Finite 100), view = flat_broker\<rparr>,
          \<lparr>closes = (\<lambda>i. Finite 101), view = flat_broker\<rparr>]"]
  by (simp add: always_def fl_le_def default_params_def)

text \<open>
  C1, as the code has it.  On a bar where the buffer has reached \<open>seq_length\<close>, the returns
  are computed, the classifier answers up (2) with a confidence above the threshold and
  there is no open position: when the current close is not zero and the quotient
  \<open>cash * position_size / close\<close> is a finite float, the policy binds \<open>size\<close> to the integer
  part of that quotient, issues a close intent on the feed and prints one notice when
  \<open>size\<close> is greater than 0, and issues nothing when it is not; there is no other intent
  for the feed on that bar.
\<close>

theorem close_intent_when_flat_up_confident:
  assumes "seq_length P \<le> int (length (lookback d)) + 1"
    and "returns rnd (slice_from (lookback d @ [close0 d]) (- seq_length P)) = Inr rs"
    and "classify (feature_text rs) = Inr (2, conf)"
    and "getposition br i = 0"
    and "fl_gt conf (threshold P)"
    and "close0 d \<noteq> Finite 0"
    and "fl_div rnd (fl_mul rnd (getcash br) (position_size P)) (close0 d) = Finite q"
  shows "body rnd P classify br i d fr =
    (let sz = (if 0 \<le> q then \<lfloor>q\<rfloor> else \<lceil>q\<rceil>)
     in (d\<lparr>lookback := lookback d @ [close0 d]\<rparr>,
         fr\<lparr>model_signals := (model_signals fr)(i \<mapsto> 2),
            size_var := Some sz,
            trace := trace fr @ Inference i (feature_text rs) #
              (if 0 < sz
               then [CloseIntent i, Print (notice ''BUY'' d conf)]
               else [])\<rparr>,
         None))"
  using assms by (simp add: body_def execute_trades_def order_size_def Let_def)

theorem close_intent_when_flat_up_confident_witness:
  "seq_length default_params \<le> int (length (lookback (feed ''AAA'' (nine 100) 100))) + 1
   \<and> returns exact (slice_from (lookback (feed ''AAA'' (nine 100) 100) @ [close0 (feed ''AAA'' (nine 100) 100)])
        (- seq_length default_params)) = Inr (map Finite [0, 0, 0, 0, 0, 0, 0, 0, 0, 0])
   \<and> always 2 (Finite (9 / 10)) (feature_text (map Finite [0, 0, 0, 0, 0, 0, 0, 0, 0, 0])) = Inr (2, Finite (9 / 10))
   \<and> getposition flat_broker 0 = 0
   \<and> fl_gt (Finite (9 / 10)) (threshold default_params)
   \<and> close0 (feed ''AAA'' (nine 100) 100) \<noteq> Finite 0
   \<and> fl_div exact (fl_mul exact (getcash flat_broker) (position_size default_params))
        (close0 (feed ''AAA'' (nine 100) 100)) = Finite 15
   \<and> snd (body exact default_params (always 2 (Finite (9 / 10))) flat_broker 0
            (feed ''AAA'' (nine 100) 100) fresh)
      = (\<lparr>model_signals = [0 \<mapsto> 2], size_var = Some 15,
          trace = [Inference 0 flat_text, CloseIntent 0,
                   Print ''BUY AAA at 100.00, confidence: 0.90'']\<rparr>, None)"
  using close_intent_when_flat_up_confident
    [of default_params "feed ''AAA'' (nine 100) 100" exact "map Finite [0, 0, 0, 0, 0, 0, 0, 0, 0, 0]"
        "always 2 (Finite (9 / 10))" "Finite (9 / 10)" flat_broker 0 15 fresh]
  by (simp add: evaluate)

text \<open>The claim as it stands fails twice.  With 10000 in cash and a close of 2000 the share
  count is \<open>int(0.75) = 0\<close>, and no intent is issued although there is no position, the class
  is up and the confidence is 0.9.  With a close of 0 (the last close is never a divisor of
  the returns, so the classifier is reached) the share count divides by zero: the call
  raises ZeroDivisionError and no intent is issued.\<close>

theorem close_intent_needs_shares:
  "seq_length default_params \<le> int (length (lookback (feed ''AAA'' (nine 2000) 2000))) + 1
   \<and> getposition flat_broker 0 = 0
   \<and> always 2 (Finite (9 / 10)) flat_text = Inr (2, Finite (9 / 10))
   \<and> fl_gt (Finite (9 / 10)) (threshold default_params)
   \<and> snd (body exact default_params (always 2 (Finite (9 / 10))) flat_broker 0
            (feed ''AAA'' (nine 2000) 2000) fresh)
      = (\<lparr>model_signals = [0 \<mapsto> 2], size_var = Some 0, trace = [Inference 0 flat_text]\<rparr>, None)
   \<and> seq_length default_params \<le> int (length (lookback (feed ''AAA'' (nine 100) 0))) + 1
   \<and> always 2 (Finite (9 / 10))
        ''Price movements: 0.0000 0.0000 0.0000 0.0000 0.0000 0.0000 0.0000 0.0000 0.0000 -1.0000''
      = Inr (2, Finite (9 / 10))
   \<and> snd (body exact default_params (always 2 (Finite (9 / 10))) flat_broker 0
            (feed ''AAA'' (nine 100) 0) fresh)
      = (\<lparr>model_signals = [0 \<mapsto> 2], size_var = None,
          trace = [Inference 0
            ''Price movements: 0.0000 0.0000 0.0000 0.0000 0.0000 0.0000 0.0000 0.0000 0.0000 -1.0000'']\<rparr>,
         Some ZeroDivisionError)"
  by (simp add: evaluate)

text \<open>In general, under the same conditions a zero close ends the call with
  ZeroDivisionError after the classifier has answered, and a quotient that is infinite or
  NaN ends it with the exception of \<open>int()\<close>; nothing is issued for the feed.\<close>

lemma close_branch_raises:
  assumes "seq_length P \<le> int (length (lookback d)) + 1"
    and "returns rnd (slice_from (lookback d @ [close0 d]) (- seq_length P)) = Inr rs"
    and "classify (feature_text rs) = Inr (2, conf)"
    and "getposition br i = 0"
    and "fl_gt conf (threshold P)"
    and "order_size rnd (getcash br) (position_size P) (close0 d) = Inl e"
  shows "body rnd P classify br i d fr =
    (d\<lparr>lookback := lookback d @ [close0 d]\<rparr>,
     fr\<lparr>model_signals := (model_signals fr)(i \<mapsto> 2),
        trace := trace fr @ [Inference i (feature_text rs)]\<rparr>,
     Some e)"
  using assms by (simp add: body_def execute_trades_def Let_def)

lemma order_size_raises_iff:
  "(\<exists>e. order_size rnd cash fraction price = Inl e) \<longleftrightarrow>
     price = Finite 0 \<or> (\<forall>q. fl_div rnd (fl_mul rnd cash fraction) price \<noteq> Finite q)"
  by (cases "fl_div rnd (fl_mul rnd cash fraction) price") (auto simp add: order_size_def)

text \<open>
  The second branch.  On a bar where the buffer has reached \<open>seq_length\<close>, the returns are
  computed, the classifier answers down (0) with a confidence above the threshold and a
  position is open, the branch reads \<open>size\<close>: when an earlier data feed has bound it in the
  same call of \<open>next\<close>, a buy intent with that size is issued; when nothing has bound it in
  this call, the call raises UnboundLocalError and no intent is issued.
\<close>

lemma buy_intent_with_bound_size:
  assumes "seq_length P \<le> int (length (lookback d)) + 1"
    and "returns rnd (slice_from (lookback d @ [close0 d]) (- seq_length P)) = Inr rs"
    and "classify (feature_text rs) = Inr (0, conf)"
    and "getposition br i \<noteq> 0"
    and "fl_gt conf (threshold P)"
    and "size_var fr = Some sz"
  shows "body rnd P classify br i d fr =
    (d\<lparr>lookback := lookback d @ [close0 d]\<rparr>,
     fr\<lparr>model_signals := (model_signals fr)(i \<mapsto> 0),
        trace := trace fr @
          [Inference i (feature_text rs), BuyIntent i sz,
           Print (notice ''SELL'' d conf)]\<rparr>,
     None)"
  using assms by (simp add: body_def execute_trades_def Let_def)

lemma buy_intent_unbound_size:
  assumes "seq_length P \<le> int (length (lookback d)) + 1"
    and "returns rnd (slice_from (lookback d @ [close0 d]) (- seq_length P)) = Inr rs"
    and "classify (feature_text rs) = Inr (0, conf)"
    and "getposition br i \<noteq> 0"
    and "fl_gt conf (threshold P)"
    and "size_var fr = None"
  shows "body rnd P classify br i d fr =
    (d\<lparr>lookback := lookback d @ [close0 d]\<rparr>,
     fr\<lparr>model_signals := (model_signals fr)(i \<mapsto> 0),
        trace := trace fr @ [Inference i (feature_text rs)]\<rparr>,
     Some UnboundLocalError)"
  using assms by (simp add: body_def execute_trades_def Let_def)

text \<open>Every call of \<open>next\<close> starts with \<open>size\<close> unbound, so the first data feed of a call
  can never go through the second branch, whatever happened on earlier bars.\<close>

lemma first_feed_unbound_size:
  assumes "seq_length P \<le> int (length (lookback d)) + 1"
    and "returns rnd (slice_from (lookback d @ [close0 d]) (- seq_length P)) = Inr rs"
    and "classify (feature_text rs) = Inr (0, conf)"
    and "getposition br 0 \<noteq> 0"
    and "fl_gt conf (threshold P)"
  shows "next_bar rnd P classify br (d # ds) signals =
    (d\<lparr>lookback := lookback d @ [close0 d]\<rparr> # ds,
     \<lparr>model_signals = signals(0 \<mapsto> 0), size_var = None,
      trace = [Inference 0 (feature_text rs)]\<rparr>,
     Some UnboundLocalError)"
  using buy_intent_unbound_size
    [of P d rnd rs classify conf br 0 "\<lparr>model_signals = signals, size_var = None, trace = []\<rparr>"]
    assms
  by (simp add: next_bar_def)

text \<open>A buy intent whose size is the one computed for an earlier data feed of the same
  bar.\<close>

lemma size_of_earlier_instrument:
  "snd (next_bar exact default_params up_when_flat second_long
          [feed ''AAA'' (nine 100) 100, feed ''BBB'' (nine 100) 101] Map.empty)
   = (\<lparr>model_signals = [0 \<mapsto> 2, 1 \<mapsto> 0], size_var = Some 15,
       trace = [Inference 0 flat_text, CloseIntent 0, Print ''BUY AAA at 100.00, confidence: 0.90'',
                Inference 1 rise_text, BuyIntent 1 15,
                Print ''SELL BBB at 101.00, confidence: 0.90'']\<rparr>, None)"
  by (simp add: evaluate next_bar_def)

text \<open>
  C2.  The claim is that with a position open, the class down (0) and a confidence above the
  threshold the policy issues a buy intent sized by \<open>size\<close>, as the no-position branch
  bound it on this or a prior bar for the instrument.  \<open>size\<close> is a local variable of one
  call of \<open>next\<close>, so a size bound on an earlier bar does not survive.  In a run with one data
  feed, the first bar goes through the no-position branch (binding a size of 15) and on the
  second bar a position is open and the classifier answers down with a confidence of 0.9:
  the call raises UnboundLocalError where \<open>size\<close> is read, no buy intent is issued and the
  run ends there.
\<close>

theorem size_unbound_on_later_bar:
  "getposition long_broker 0 \<noteq> 0
   \<and> up_when_flat rise_text = Inr (0, Finite (9 / 10))
   \<and> fl_gt (Finite (9 / 10)) (threshold default_params)
   \<and> snd (snd (run exact default_params up_when_flat [feed ''AAA'' (nine 100) 100] Map.empty
       [\<lparr>closes = (\<lambda>i. Finite 100), view = flat_broker\<rparr>,
        \<lparr>closes = (\<lambda>i. Finite 101), view = long_broker\<rparr>]))
   = ([Inference 0 flat_text, CloseIntent 0, Print ''BUY AAA at 100.00, confidence: 0.90'',
       Inference 0 rise_text],
      Some UnboundLocalError)"
  by (simp add: evaluate next_bar_def advance_def)

lemma collect_Inr_iff:
  "collect f xs = Inr ys \<longleftrightarrow>
     length ys = length xs \<and> (\<forall>k<length xs. f (xs ! k) = Inr (ys ! k))"
proof (induction xs arbitrary: ys)
  case Nil
  then show ?case by auto
next
  case (Cons x xs)
  show ?case
  proof (cases "f x")
    case (Inl e)
    then show ?thesis by auto
  next
    case fx: (Inr y)
    show ?thesis
    proof (cases "collect f xs")
      case (Inl e)
      with Cons.IH have no: "\<And>zs. \<not> (length zs = length xs \<and> (\<forall>k<length xs. f (xs ! k) = Inr (zs ! k)))"
        by auto
      have "\<not> (length ys = length (x # xs) \<and> (\<forall>k<length (x # xs). f ((x # xs) ! k) = Inr (ys ! k)))"
      proof
        assume a: "length ys = length (x # xs) \<and> (\<forall>k<length (x # xs). f ((x # xs) ! k) = Inr (ys ! k))"
        then obtain z zs where ys: "ys = z # zs" by (cases ys) auto
        with a have "length zs = length xs \<and> (\<forall>k<length xs. f (xs ! k) = Inr (zs ! k))"
          by fastforce
        with no show False by blast
      qed
      with fx Inl show ?thesis by simp
    next
      case c: (Inr zs)
      with Cons.IH [of zs] have zs: "length zs = length xs" "\<forall>k<length xs. f (xs ! k) = Inr (zs ! k)"
        by auto
      show ?thesis
      proof
        assume "collect f (x # xs) = Inr ys"
        with fx c have "ys = y # zs" by simp
        with zs fx show "length ys = length (x # xs) \<and> (\<forall>k<length (x # xs). f ((x # xs) ! k) = Inr (ys ! k))"
          by (auto simp add: nth_Cons')
      next
        assume a: "length ys = length (x # xs) \<and> (\<forall>k<length (x # xs). f ((x # xs) ! k) = Inr (ys ! k))"
        then obtain w ws where ys: "ys = w # ws" by (cases ys) auto
        with a fx have w: "w = y" by fastforce
        from a ys have "length ws = length xs \<and> (\<forall>k<length xs. f (xs ! k) = Inr (ws ! k))"
          by fastforce
        with Cons.IH [of ws] c have "ws = zs" by simp
        with fx c ys w show "collect f (x # xs) = Inr ys" by simp
      qed
    qed
  qed
qed

lemma collect_Inl:
  "collect f xs = Inl e \<Longrightarrow> \<exists>x\<in>set xs. f x = Inl e"
  by (induction xs) (auto split: sum.splits)

lemma collect_total:
  "\<forall>x\<in>set xs. \<exists>y. f x = Inr y \<Longrightarrow> \<exists>ys. collect f xs = Inr ys"
  by (induction xs) (auto split: sum.splits)

lemma slice_from_last:
  "0 < n \<Longrightarrow> n \<le> int (length xs) \<Longrightarrow> slice_from xs (- n) = drop (length xs - nat n) xs"
  by (simp add: slice_from_def nat_diff_distrib')

lemma returns_Inr_iff:
  "returns rnd recent = Inr rs \<longleftrightarrow>
     length rs = length recent \<and> (\<forall>k<length recent. simple_return rnd recent k = Inr (rs ! k))"
  by (simp add: returns_def collect_Inr_iff)

lemma returns_total:
  assumes "\<forall>j. Suc j < length recent \<longrightarrow> recent ! j \<noteq> Finite 0"
  shows "\<exists>rs. returns rnd recent = Inr rs"
  unfolding returns_def
proof (rule collect_total, rule ballI)
  fix k assume "k \<in> set [0..<length recent]"
  then have k: "k < length recent" by simp
  show "\<exists>y. simple_return rnd recent k = Inr y"
  proof (cases k)
    case 0
    then show ?thesis by (simp add: simple_return_def)
  next
    case (Suc j)
    with k assms have "recent ! j \<noteq> Finite 0" by simp
    with Suc show ?thesis by (simp add: simple_return_def)
  qed
qed

lemma returns_Inl:
  assumes "returns rnd recent = Inl e"
  shows "e = ZeroDivisionError \<and> (\<exists>j. Suc j < length recent \<and> recent ! j = Finite 0)"
proof -
  from collect_Inl [OF assms [unfolded returns_def]]
  obtain k where k: "k < length recent" "simple_return rnd recent k = Inl e" by auto
  then have "0 < k" "recent ! (k - 1) = Finite 0" "e = ZeroDivisionError"
    by (auto simp add: simple_return_def split: if_splits)
  with k(1) show ?thesis by (intro conjI exI [of _ "k - 1"]) auto
qed

lemma body_inference:
  assumes "seq_length P \<le> int (length (lookback d)) + 1"
    and "returns rnd (slice_from (lookback d @ [close0 d]) (- seq_length P)) = Inr rs"
  shows "\<exists>es. trace (fst (snd (body rnd P classify br i d fr))) =
           trace fr @ Inference i (feature_text rs) # es"
proof (cases "classify (feature_text rs)")
  case (Inl e)
  with assms show ?thesis by (simp add: body_def Let_def)
next
  case (Inr pc)
  obtain pred conf where pc: "pc = (pred, conf)" by (cases pc)
  let ?d = "d\<lparr>lookback := lookback d @ [close0 d]\<rparr>"
  let ?fr = "fr\<lparr>trace := trace fr @ [Inference i (feature_text rs)], 
     model_signals := (model_signals fr)(i \<mapsto> pred)\<rparr>"
  obtain fr2 e2 where ex: "execute_trades rnd P br i ?d pred conf ?fr = (fr2, e2)"
    by (cases "execute_trades rnd P br i ?d pred conf ?fr")
  from execute_trades_trace [OF ex] obtain es where "trace fr2 = trace ?fr @ es" by blast
  moreover have "fst (snd (body rnd P classify br i d fr)) = fr2"
    using assms Inr pc ex by (simp add: body_def Let_def)
  ultimately show ?thesis by simp
qed

text \<open>
  C7, as the code has it.  On a bar where the buffer has at least \<open>seq_length\<close> entries, for
  a \<open>seq_length\<close> of at least 1 and when none of the closes of the window but the last is
  zero: the window is exactly the most recent \<open>seq_length\<close> closes, the returns are 0 for
  the first and \<open>close[k] / close[k-1] - 1\<close> for every later one, and the classifier is
  called on \<open>Price movements:\<close> followed by the returns formatted with four decimals and
  joined by spaces.
\<close>

theorem feature_of_recent_returns:
  assumes "seq_length P \<le> int (length (lookback d)) + 1"
    and "0 < seq_length P"
    and "recent = drop (length (lookback d) + 1 - nat (seq_length P)) (lookback d @ [close0 d])"
    and "\<forall>j. Suc j < length recent \<longrightarrow> recent ! j \<noteq> Finite 0"
  shows "length recent = nat (seq_length P) \<and>
     (\<exists>rs es. returns rnd recent = Inr rs \<and> length rs = length recent \<and>
        (\<forall>k<length rs. rs ! k =
           (if 0 < k then fl_sub rnd (fl_div rnd (recent ! k) (recent ! (k - 1))) (Finite 1)
            else Finite 0)) \<and>
        trace (fst (snd (body rnd P classify br i d fr))) =
          trace fr @
          Inference i (''Price movements: '' @ join '' '' (map (format_fixed 4) rs)) # es)"
proof -
  have sl: "slice_from (lookback d @ [close0 d]) (- seq_length P) = recent"
    using assms(1,2,3) slice_from_last [of "seq_length P" "lookback d @ [close0 d]"] by simp
  have len: "length recent = nat (seq_length P)"
    using assms(1,2,3) by auto
  from returns_total [OF assms(4)] obtain rs where rs: "returns rnd recent = Inr rs" by blast
  then have l: "length rs = length recent"
    and v: "\<forall>k<length recent. simple_return rnd recent k = Inr (rs ! k)"
    by (simp_all add: returns_Inr_iff)
  have vals: "\<forall>k<length rs. rs ! k =
      (if 0 < k then fl_sub rnd (fl_div rnd (recent ! k) (recent ! (k - 1))) (Finite 1)
       else Finite 0)"
  proof (intro allI impI)
    fix k assume k: "k < length rs"
    with l v have s: "simple_return rnd recent k = Inr (rs ! k)" by simp
    show "rs ! k = (if 0 < k then fl_sub rnd (fl_div rnd (recent ! k) (recent ! (k - 1))) (Finite 1)
       else Finite 0)"
    proof (cases k)
      case 0
      with s show ?thesis by (simp add: simple_return_def)
    next
      case (Suc j)
      with k l assms(4) have "recent ! j \<noteq> Finite 0" by simp
      with s Suc show ?thesis by (simp add: simple_return_def)
    qed
  qed
  from body_inference [OF assms(1) rs [folded sl]] obtain es where
    "trace (fst (snd (body rnd P classify br i d fr))) = trace fr @ Inference i (feature_text rs) # es"
    by blast
  with len rs l vals show ?thesis by (auto simp add: feature_text_def)
qed

theorem feature_of_recent_returns_witness:
  "seq_length default_params \<le> int (length (lookback (feed ''AAA'' (50 # nine 100) 101))) + 1
   \<and> 0 < seq_length default_params
   \<and> map Finite (nine 100 @ [101])
       = drop (length (lookback (feed ''AAA'' (50 # nine 100) 101)) + 1 - nat (seq_length default_params))
           (lookback (feed ''AAA'' (50 # nine 100) 101) @ [close0 (feed ''AAA'' (50 # nine 100) 101)])
   \<and> list_all (\<lambda>c. c \<noteq> Finite 0) (map Finite (nine 100 @ [101]))
   \<and> returns exact (map Finite (nine 100 @ [101])) = Inr (map Finite [0, 0, 0, 0, 0, 0, 0, 0, 0, 1 / 100])
   \<and> trace (fst (snd (body exact default_params (always 1 (Finite (1 / 2))) flat_broker 0
        (feed ''AAA'' (50 # nine 100) 101) fresh)))
      = [Inference 0 rise_text]"
  using feature_of_recent_returns
    [of default_params "feed ''AAA'' (50 # nine 100) 101" "map Finite (nine 100 @ [101])" exact
        "always 1 (Finite (1 / 2))" flat_broker 0 fresh]
  by (simp add: evaluate)

text \<open>Without the two conditions the claim fails: a zero close inside the window makes the
  division raise, so that no feature is rendered; and with a \<open>seq_length\<close> of 0 the slice
  \<open>lookback[-0:]\<close> is the whole buffer, not its last 0 entries.\<close>

theorem returns_fail_on_zero_close_and_empty_window:
  "seq_length default_params \<le> int (length (lookback (feed ''AAA'' [100, 100, 100, 100, 0, 100, 100, 100, 100] 100))) + 1
   \<and> body exact default_params (always 1 (Finite (1 / 2))) flat_broker 0
        (feed ''AAA'' [100, 100, 100, 100, 0, 100, 100, 100, 100] 100) fresh
      = (feed ''AAA'' [100, 100, 100, 100, 0, 100, 100, 100, 100, 100] 100, fresh, Some ZeroDivisionError)
   \<and> seq_length (default_params\<lparr>seq_length := 0\<rparr>) \<le> int (length (lookback (feed ''AAA'' [100, 101] 101))) + 1
   \<and> trace (fst (snd (body exact (default_params\<lparr>seq_length := 0\<rparr>) (always 1 (Finite (1 / 2)))
        flat_broker 0 (feed ''AAA'' [100, 101] 101) fresh)))
      = [Inference 0 ''Price movements: 0.0000 0.0100 0.0000'']"
  by (simp add: evaluate)

end
